theory Spec2Isabelle
  imports Main
begin

unbundle bit_operations_syntax

section \<open>Python values and the operations the assistant applies to them\<close>

text \<open>
  The values \<open>json.loads\<close> and \<open>response.json()\<close> hand to the program. \<open>PNone\<close> is
  Python's \<open>None\<close> (JSON \<open>null\<close>); a dict is an association list read with \<open>map_of\<close>.
  Of a number the program only ever inspects whether it is zero.
\<close>

datatype pyval =
    PNone
  | PBool bool
  | PInt int
  | PStr string
  | PList "pyval list"
  | PDict "(string \<times> pyval) list"

text \<open>
  The exceptions the program can meet. Every one of them ends in an \<open>except\<close> clause of
  \<open>call_llm\<close> or \<open>call_llm_streaming\<close>; \<open>Timeout\<close> is \<open>requests.exceptions.Timeout\<close> and
  \<open>JSONDecodeError\<close> is the one class the streaming loop catches per frame.
\<close>

datatype exn =
    Timeout
  | HTTPError nat
  | JSONDecodeError
  | UnicodeDecodeError
  | KeyError
  | IndexError
  | TypeError
  | AttributeError
  | OtherException string

text \<open>Truthiness, as in \<open>if content:\<close> and \<open>... and result\<close>.\<close>

fun truthy :: "pyval \<Rightarrow> bool" where
  "truthy PNone = False"
| "truthy (PBool b) = b"
| "truthy (PInt n) = (n \<noteq> 0)"
| "truthy (PStr s) = (s \<noteq> [])"
| "truthy (PList xs) = (xs \<noteq> [])"
| "truthy (PDict kvs) = (kvs \<noteq> [])"

text \<open>\<open>needle in haystack\<close> on two strings: a contiguous occurrence.\<close>

fun starts_with :: "string \<Rightarrow> string \<Rightarrow> bool" where
  "starts_with [] s = True"
| "starts_with (p # ps) [] = False"
| "starts_with (p # ps) (c # cs) = (p = c \<and> starts_with ps cs)"

fun str_contains :: "string \<Rightarrow> string \<Rightarrow> bool" where
  "str_contains p [] = (p = [])"
| "str_contains p (c # cs) = (starts_with p (c # cs) \<or> str_contains p cs)"

text \<open>\<open>key in v\<close>: key membership of a dict, element membership of a list, substring of a
  string, \<open>TypeError\<close> on anything else.\<close>

fun py_in :: "string \<Rightarrow> pyval \<Rightarrow> exn + bool" where
  "py_in k (PDict kvs) = Inr (map_of kvs k \<noteq> None)"
| "py_in k (PList xs) = Inr (PStr k \<in> set xs)"
| "py_in k (PStr s) = Inr (str_contains k s)"
| "py_in k v = Inl TypeError"

text \<open>\<open>v[key]\<close> with a string key.\<close>

fun py_getitem :: "pyval \<Rightarrow> string \<Rightarrow> exn + pyval" where
  "py_getitem (PDict kvs) k = (case map_of kvs k of None \<Rightarrow> Inl KeyError | Some x \<Rightarrow> Inr x)"
| "py_getitem v k = Inl TypeError"

text \<open>\<open>len(v)\<close>; a dict counts its distinct keys.\<close>

fun py_len :: "pyval \<Rightarrow> exn + nat" where
  "py_len (PDict kvs) = Inr (length (remdups (map fst kvs)))"
| "py_len (PList xs) = Inr (length xs)"
| "py_len (PStr s) = Inr (length s)"
| "py_len v = Inl TypeError"

text \<open>\<open>v[0]\<close>: the head of a list, the first character of a string; a dict decoded from JSON
  has string keys only, so \<open>0\<close> is never one of them.\<close>

fun py_getitem0 :: "pyval \<Rightarrow> exn + pyval" where
  "py_getitem0 (PList xs) = (case xs of [] \<Rightarrow> Inl IndexError | x # _ \<Rightarrow> Inr x)"
| "py_getitem0 (PStr s) = (case s of [] \<Rightarrow> Inl IndexError | c # _ \<Rightarrow> Inr (PStr [c]))"
| "py_getitem0 (PDict kvs) = Inl KeyError"
| "py_getitem0 v = Inl TypeError"

text \<open>\<open>v.get(key, default)\<close>: only a dict has the method.\<close>

fun py_get :: "pyval \<Rightarrow> string \<Rightarrow> pyval \<Rightarrow> exn + pyval" where
  "py_get (PDict kvs) k d = Inr (case map_of kvs k of None \<Rightarrow> d | Some x \<Rightarrow> x)"
| "py_get v k d = Inl AttributeError"

text \<open>\<open>result_text += content\<close> with \<open>result_text\<close> a string.\<close>

fun str_add :: "string \<Rightarrow> pyval \<Rightarrow> exn + string" where
  "str_add acc (PStr s) = Inr (acc @ s)"
| "str_add acc v = Inl TypeError"

text \<open>Sequencing of steps that may raise.\<close>

definition bnd :: "exn + 'a \<Rightarrow> ('a \<Rightarrow> exn + 'b) \<Rightarrow> exn + 'b" where
  "bnd m f = (case m of Inl e \<Rightarrow> Inl e | Inr x \<Rightarrow> f x)"

text \<open>\<open>str.strip()\<close>: whitespace removed at both ends. A \<open>char\<close> stands for a code point
  below 256; these are the ones \<open>str.isspace\<close> accepts.\<close>

definition is_space :: "char \<Rightarrow> bool" where
  "is_space c = (c \<in> set [CHR '' '', CHR 0x09, CHR 0x0A, CHR 0x0B, CHR 0x0C, CHR 0x0D,
                          CHR 0x1C, CHR 0x1D, CHR 0x1E, CHR 0x1F, CHR 0x85, CHR 0xA0])"

definition strip :: "string \<Rightarrow> string" where
  "strip s = rev (dropWhile is_space (rev (dropWhile is_space s)))"

text \<open>Decimal rendering of \<open>len(result_text)\<close> inside the progress message.\<close>

fun show_nat :: "nat \<Rightarrow> string" where
  "show_nat n = (if n < 10 then [char_of (48 + n)]
                 else show_nat (n div 10) @ [char_of (48 + n mod 10)])"

declare show_nat.simps [simp del]

section \<open>Requests, responses and the world outside the program\<close>

text \<open>The one user message of a request: plain text, or text with a PNG data URL.\<close>

datatype msg_content =
    Text string
  | TextAndImage string string

record request =
  rq_url :: string
  rq_bearer :: string
  rq_model :: string
  rq_content :: msg_content
  rq_stream :: bool
  rq_timeout :: nat

text \<open>
  What \<open>response.iter_lines()\<close> yields, one item per step of the \<open>for\<close> loop: a line that
  decodes as UTF-8, a non-empty line that does not, or an exception raised by the iterator.
\<close>

datatype stream_item =
    Line string
  | BadUtf8
  | Broken exn

record response =
  status_code :: nat
  body :: string
  lines :: "stream_item list"

datatype http_outcome =
    Raises exn
  | Responds response

text \<open>Tasks handed to \<open>GLib.idle_add\<close>, which the GTK main loop runs in the order queued.\<close>

datatype task =
    Destroy
  | UpdateStatus string
  | ShowResult string pyval
  | Callback string

text \<open>
  The environment of a run: everything decided outside this repository.
  \<open>cancel_at = Some t\<close> says that the reads of \<open>progress_dialog.cancelled\<close> numbered \<open>t\<close> and
  later see \<open>True\<close> (the flag is only ever set, by \<open>on_cancel\<close>); \<open>respond k rq\<close> is what the
  \<open>k\<close>-th \<open>requests.post\<close> of the run meets; the remaining fields are the library functions
  \<open>Response.raise_for_status\<close>, \<open>json.loads\<close>, \<open>str\<close> of an exception and \<open>str\<close> of a value.
\<close>

record env =
  cancel_at :: "nat option"
  respond :: "nat \<Rightarrow> request \<Rightarrow> http_outcome"
  raise_for_status :: "nat \<Rightarrow> exn option"
  json_loads :: "string \<Rightarrow> pyval option"
  str_exn :: "exn \<Rightarrow> string"
  py_str :: "pyval \<Rightarrow> string"

text \<open>The effects of a worker thread so far.\<close>

record world =
  flag_reads :: nat
  net_log :: "request list"
  idle_queue :: "task list"

record config =
  api_url :: string
  api_key :: string
  default_language :: string
  text_model :: string
  premium_text_model :: string
  vision_model :: string
  ocr_model :: string
  use_premium :: bool

definition cancelled_now :: "env \<Rightarrow> world \<Rightarrow> bool" where
  "cancelled_now env w = (case cancel_at env of None \<Rightarrow> False | Some t \<Rightarrow> t \<le> flag_reads w)"

definition read_cancelled :: "env \<Rightarrow> world \<Rightarrow> bool \<times> world" where
  "read_cancelled env w = (cancelled_now env w, w\<lparr>flag_reads := Suc (flag_reads w)\<rparr>)"

definition idle_add :: "task \<Rightarrow> world \<Rightarrow> world" where
  "idle_add t w = w\<lparr>idle_queue := idle_queue w @ [t]\<rparr>"

definition requests_post :: "env \<Rightarrow> request \<Rightarrow> world \<Rightarrow> http_outcome \<times> world" where
  "requests_post env rq w = (respond env (length (net_log w)) rq, w\<lparr>net_log := net_log w @ [rq]\<rparr>)"

definition get_active_text_model :: "config \<Rightarrow> string" where
  "get_active_text_model cfg = (if use_premium cfg then premium_text_model cfg else text_model cfg)"

section \<open>The streaming invocation\<close>

text \<open>The body of the inner \<open>try\<close> after \<open>json.loads\<close>: the text a chunk adds, or the
  exception it raises.\<close>

definition chunk_content :: "pyval \<Rightarrow> exn + pyval" where
  "chunk_content chunk =
     bnd (py_in ''choices'' chunk) (\<lambda>has.
       if \<not> has then Inr (PStr [])
       else bnd (py_getitem chunk ''choices'') (\<lambda>choices.
            bnd (py_len choices) (\<lambda>n.
              if \<not> n > 0 then Inr (PStr [])
              else bnd (py_getitem0 choices) (\<lambda>choice.
                   bnd (py_get choice ''delta'' (PDict [])) (\<lambda>delta.
                   py_get delta ''content'' (PStr []))))))"

definition finish :: "string \<Rightarrow> pyval" where
  "finish result_text = PStr (if result_text \<noteq> [] then result_text else ''No response received'')"

text \<open>
  The \<open>for line in response.iter_lines()\<close> loop with its accumulator \<open>result_text\<close>. The
  result is \<open>Inl e\<close> when \<open>e\<close> leaves the loop, \<open>Inr PNone\<close> for \<open>return None\<close>, and the
  value of the final \<open>return\<close> when the lines run out or the loop breaks at \<open>[DONE]\<close>.
\<close>

fun stream_loop :: "env \<Rightarrow> stream_item list \<Rightarrow> string \<Rightarrow> world \<Rightarrow> (exn + pyval) \<times> world" where
  "stream_loop env [] result_text w = (Inr (finish result_text), w)"
| "stream_loop env (Broken e # rest) result_text w = (Inl e, w)"
| "stream_loop env (BadUtf8 # rest) result_text w =
     (case read_cancelled env w of (c, w1) \<Rightarrow>
        if c then (Inr PNone, w1) else (Inl UnicodeDecodeError, w1))"
| "stream_loop env (Line l # rest) result_text w =
     (case read_cancelled env w of (c, w1) \<Rightarrow>
        if c then (Inr PNone, w1)
        else if l = [] then stream_loop env rest result_text w1
        else if \<not> starts_with ''data: '' l then stream_loop env rest result_text w1
        else if strip (drop 6 l) = ''[DONE]'' then (Inr (finish result_text), w1)
        else (case json_loads env (drop 6 l) of
                None \<Rightarrow> stream_loop env rest result_text w1
              | Some chunk \<Rightarrow>
                  (case chunk_content chunk of
                     Inl e \<Rightarrow> (Inl e, w1)
                   | Inr content \<Rightarrow>
                       if \<not> truthy content then stream_loop env rest result_text w1
                       else (case str_add result_text content of
                               Inl e \<Rightarrow> (Inl e, w1)
                             | Inr result_text' \<Rightarrow>
                                 stream_loop env rest result_text'
                                   (idle_add (UpdateStatus (''Receiving response... (''
                                      @ show_nat (length result_text') @ '' chars)'')) w1)))))"

text \<open>The two \<open>except\<close> clauses of \<open>call_llm_streaming\<close>.\<close>

definition streaming_handler :: "env \<Rightarrow> exn + pyval \<Rightarrow> pyval" where
  "streaming_handler env r =
     (case r of
        Inr v \<Rightarrow> v
      | Inl Timeout \<Rightarrow> PStr ''Error: Connection timeout''
      | Inl e \<Rightarrow> PStr (''Error: '' @ str_exn env e))"

text \<open>The JSON body and headers of the streaming request.\<close>

definition streaming_request :: "config \<Rightarrow> string \<Rightarrow> string \<Rightarrow> request" where
  "streaming_request cfg model prompt =
     \<lparr>rq_url = api_url cfg, rq_bearer = api_key cfg, rq_model = model,
      rq_content = Text prompt, rq_stream = True, rq_timeout = 10\<rparr>"

text \<open>The \<open>try\<close> block of \<open>call_llm_streaming\<close>.\<close>

definition streaming_try :: "env \<Rightarrow> request \<Rightarrow> world \<Rightarrow> (exn + pyval) \<times> world" where
  "streaming_try env rq w =
     (case requests_post env rq w of
        (Raises e, w1) \<Rightarrow> (Inl e, w1)
      | (Responds r, w1) \<Rightarrow>
          (case raise_for_status env (status_code r) of
             Some e \<Rightarrow> (Inl e, w1)
           | None \<Rightarrow> stream_loop env (lines r) [] w1))"

definition call_llm_streaming :: "env \<Rightarrow> config \<Rightarrow> string \<Rightarrow> string \<Rightarrow> world \<Rightarrow> pyval \<times> world" where
  "call_llm_streaming env cfg model prompt w =
     (case streaming_try env (streaming_request cfg model prompt) w of
        (res, w1) \<Rightarrow> (streaming_handler env res, w1))"

section \<open>The buffered invocation\<close>

text \<open>\<open>result['choices'][0]['message']['content']\<close>.\<close>

definition response_content :: "pyval \<Rightarrow> exn + pyval" where
  "response_content result =
     bnd (py_getitem result ''choices'') (\<lambda>choices.
     bnd (py_getitem0 choices) (\<lambda>choice.
     bnd (py_getitem choice ''message'') (\<lambda>message.
     py_getitem message ''content'')))"

text \<open>The message content after \<open>if image_base64:\<close>; an empty string is falsy.\<close>

definition attach_image :: "string \<Rightarrow> string option \<Rightarrow> msg_content" where
  "attach_image prompt image_base64 =
     (case image_base64 of
        None \<Rightarrow> Text prompt
      | Some b \<Rightarrow> if b \<noteq> [] then TextAndImage prompt (''data:image/png;base64,'' @ b) else Text prompt)"

text \<open>The \<open>try\<close> block of \<open>call_llm\<close>, before its \<open>except Exception\<close>.\<close>

definition call_llm_try :: "env \<Rightarrow> request \<Rightarrow> world \<Rightarrow> (exn + pyval) \<times> world" where
  "call_llm_try env rq w =
     (case requests_post env rq w of
        (Raises e, w1) \<Rightarrow> (Inl e, w1)
      | (Responds r, w1) \<Rightarrow>
          (case raise_for_status env (status_code r) of
             Some e \<Rightarrow> (Inl e, w1)
           | None \<Rightarrow>
               (case json_loads env (body r) of
                  None \<Rightarrow> (Inl JSONDecodeError, w1)
                | Some result \<Rightarrow> (response_content result, w1))))"

definition buffered_request :: "config \<Rightarrow> string \<Rightarrow> string \<Rightarrow> string option \<Rightarrow> request" where
  "buffered_request cfg model prompt image_base64 =
     \<lparr>rq_url = api_url cfg, rq_bearer = api_key cfg, rq_model = model,
      rq_content = attach_image prompt image_base64, rq_stream = False, rq_timeout = 120\<rparr>"

definition call_llm :: "env \<Rightarrow> config \<Rightarrow> string \<Rightarrow> string \<Rightarrow> string option \<Rightarrow> world \<Rightarrow> pyval \<times> world" where
  "call_llm env cfg model prompt image_base64 w =
     (case call_llm_try env (buffered_request cfg model prompt image_base64) w of
        (Inl e, w1) \<Rightarrow> (PStr (''Error: '' @ str_exn env e), w1)
      | (Inr v, w1) \<Rightarrow> (v, w1))"

section \<open>The seven operations\<close>

definition NL :: string where
  "NL = [CHR 0x0A]"

text \<open>A value inside an f-string: a string stands for itself, anything else goes through
  \<open>str\<close>.\<close>

definition fstr :: "env \<Rightarrow> pyval \<Rightarrow> string" where
  "fstr env v = (case v of PStr s \<Rightarrow> s | _ \<Rightarrow> py_str env v)"

text \<open>The closing \<open>if\<close>/\<open>elif\<close> that every \<open>process\<close> ends with.\<close>

definition deliver :: "env \<Rightarrow> string \<Rightarrow> pyval \<Rightarrow> world \<Rightarrow> world" where
  "deliver env title result w =
     (case read_cancelled env w of (c1, w1) \<Rightarrow>
        if \<not> c1 \<and> truthy result then idle_add (ShowResult title result) (idle_add Destroy w1)
        else (case read_cancelled env w1 of (c2, w2) \<Rightarrow>
                if c2 then idle_add Destroy w2 else w2))"

definition process_translate :: "env \<Rightarrow> config \<Rightarrow> string \<Rightarrow> world \<Rightarrow> world" where
  "process_translate env cfg text w =
     (case call_llm_streaming env cfg (get_active_text_model cfg)
             (''Translate the following text to '' @ default_language cfg
              @ ''. Respond in Markdown format. Only provide the translation, no explanations:''
              @ NL @ NL @ text) w of
        (result, w1) \<Rightarrow> deliver env ''Translation'' result w1)"

definition process_explain :: "env \<Rightarrow> config \<Rightarrow> string \<Rightarrow> world \<Rightarrow> world" where
  "process_explain env cfg text w =
     (case call_llm_streaming env cfg (get_active_text_model cfg)
             (''Provide more information and context about the following text. Respond in ''
              @ default_language cfg @ '' using Markdown format:'' @ NL @ NL @ text) w of
        (result, w1) \<Rightarrow> deliver env ''Explanation'' result w1)"

definition ocr_translate_process :: "env \<Rightarrow> config \<Rightarrow> string \<Rightarrow> world \<Rightarrow> world" where
  "ocr_translate_process env cfg img_base64 w =
     (case read_cancelled env (idle_add (UpdateStatus ''Extracting text from image...'') w) of
        (c0, w0) \<Rightarrow>
          if c0 then idle_add Destroy w0
          else (case call_llm env cfg (ocr_model cfg)
                  ''Extract all text from this image. Only provide the extracted text, no explanations.''
                  (Some img_base64) w0 of
                  (ocr_result, w1) \<Rightarrow>
                    (case read_cancelled env w1 of
                       (c1, w2) \<Rightarrow>
                         if c1 then idle_add Destroy w2
                         else (case call_llm_streaming env cfg (get_active_text_model cfg)
                                 (''Translate the following text to '' @ default_language cfg
                                  @ ''. Respond in Markdown format. Only provide the translation:''
                                  @ NL @ NL @ fstr env ocr_result)
                                 (idle_add (UpdateStatus ''Translating text...'') w2) of
                                 (final_result, w3) \<Rightarrow>
                                   deliver env ''OCR + Translation'' final_result w3))))"

definition explain_image_process :: "env \<Rightarrow> config \<Rightarrow> string \<Rightarrow> world \<Rightarrow> world" where
  "explain_image_process env cfg img_base64 w =
     (case read_cancelled env (idle_add (UpdateStatus ''Analyzing image...'') w) of
        (c0, w0) \<Rightarrow>
          if c0 then idle_add Destroy w0
          else (case call_llm env cfg (vision_model cfg)
                  (''Describe and explain what you see in this image. Provide detailed information. Respond in ''
                   @ default_language cfg @ '' using Markdown format.'')
                  (Some img_base64) w0 of
                  (result, w1) \<Rightarrow> deliver env ''Image Analysis'' result w1))"

definition ocr_explain_process :: "env \<Rightarrow> config \<Rightarrow> string \<Rightarrow> world \<Rightarrow> world" where
  "ocr_explain_process env cfg img_base64 w =
     (case read_cancelled env (idle_add (UpdateStatus ''Extracting text from image...'') w) of
        (c0, w0) \<Rightarrow>
          if c0 then idle_add Destroy w0
          else (case call_llm env cfg (ocr_model cfg)
                  ''Extract all text from this image. Only provide the extracted text.''
                  (Some img_base64) w0 of
                  (ocr_result, w1) \<Rightarrow>
                    (case read_cancelled env w1 of
                       (c1, w2) \<Rightarrow>
                         if c1 then idle_add Destroy w2
                         else (case call_llm_streaming env cfg (get_active_text_model cfg)
                                 (''Provide more information and context about the following text. Respond in ''
                                  @ default_language cfg @ '' using Markdown format:''
                                  @ NL @ NL @ fstr env ocr_result)
                                 (idle_add (UpdateStatus ''Generating explanation...'') w2) of
                                 (final_result, w3) \<Rightarrow>
                                   deliver env ''OCR + Explanation'' final_result w3))))"

definition query_image_prompt :: "env \<Rightarrow> config \<Rightarrow> pyval \<Rightarrow> pyval \<Rightarrow> string \<Rightarrow> string" where
  "query_image_prompt env cfg ocr_result vision_result user_query =
     ''You are analyzing an image for a user. Here is the information extracted from the image:''
     @ NL @ NL
     @ ''TEXT EXTRACTED FROM IMAGE:'' @ NL
     @ fstr env ocr_result @ NL @ NL
     @ ''VISUAL DESCRIPTION OF IMAGE:'' @ NL
     @ fstr env vision_result @ NL @ NL
     @ ''USER'S QUESTION:'' @ NL
     @ user_query @ NL @ NL
     @ ''Please answer the user's question based on both the extracted text and visual description of the image. Respond in ''
     @ default_language cfg @ '' using Markdown format.''"

definition process_query_image :: "env \<Rightarrow> config \<Rightarrow> string \<Rightarrow> string \<Rightarrow> world \<Rightarrow> world" where
  "process_query_image env cfg img_base64 user_query w =
     (case read_cancelled env (idle_add (UpdateStatus ''Extracting text from image...'') w) of
        (c0, w0) \<Rightarrow>
          if c0 then idle_add Destroy w0
          else (case call_llm env cfg (ocr_model cfg)
                  ''Extract all text from this image. Only provide the extracted text, no explanations. If there is no text, respond with 'No text found'.''
                  (Some img_base64) w0 of
                  (ocr_result, w1) \<Rightarrow>
                    (case read_cancelled env w1 of
                       (c1, w2) \<Rightarrow>
                         if c1 then idle_add Destroy w2
                         else (case call_llm env cfg (vision_model cfg)
                                 ''Describe what you see in this image in detail. Focus on the main elements, layout, and visual characteristics.''
                                 (Some img_base64)
                                 (idle_add (UpdateStatus ''Analyzing image visually...'') w2) of
                                 (vision_result, w3) \<Rightarrow>
                                   (case read_cancelled env w3 of
                                      (c2, w4) \<Rightarrow>
                                        if c2 then idle_add Destroy w4
                                        else (case call_llm_streaming env cfg (get_active_text_model cfg)
                                                (query_image_prompt env cfg ocr_result vision_result user_query)
                                                (idle_add (UpdateStatus ''Generating answer...'') w4) of
                                                (final_result, w5) \<Rightarrow>
                                                  deliver env ''Query Result'' final_result w5))))))"

definition query_text_prompt :: "config \<Rightarrow> string \<Rightarrow> string \<Rightarrow> string" where
  "query_text_prompt cfg clipboard_text user_query =
     ''Here is some text that the user has provided:'' @ NL @ NL
     @ ''TEXT:'' @ NL
     @ clipboard_text @ NL @ NL
     @ ''USER'S QUESTION:'' @ NL
     @ user_query @ NL @ NL
     @ ''Please answer the user's question based on the provided text. Respond in ''
     @ default_language cfg @ '' using Markdown format.''"

definition process_query_text :: "env \<Rightarrow> config \<Rightarrow> string \<Rightarrow> string \<Rightarrow> world \<Rightarrow> world" where
  "process_query_text env cfg clipboard_text user_query w =
     (case call_llm_streaming env cfg (get_active_text_model cfg)
             (query_text_prompt cfg clipboard_text user_query) w of
        (result, w1) \<Rightarrow> deliver env ''Query Result'' result w1)"

text \<open>The worker of each operation, by the operation that started it; \<open>input\<close> is the
  confirmed clipboard text or the base64 PNG of the screenshot.\<close>

datatype operation =
    TranslateText
  | ExplainText
  | OcrTranslate
  | ExplainImage
  | OcrExplain
  | QueryImage
  | QueryText

fun run_process :: "operation \<Rightarrow> env \<Rightarrow> config \<Rightarrow> string \<Rightarrow> string \<Rightarrow> world \<Rightarrow> world" where
  "run_process TranslateText env cfg input user_query w = process_translate env cfg input w"
| "run_process ExplainText env cfg input user_query w = process_explain env cfg input w"
| "run_process OcrTranslate env cfg input user_query w = ocr_translate_process env cfg input w"
| "run_process ExplainImage env cfg input user_query w = explain_image_process env cfg input w"
| "run_process OcrExplain env cfg input user_query w = ocr_explain_process env cfg input w"
| "run_process QueryImage env cfg input user_query w = process_query_image env cfg input user_query w"
| "run_process QueryText env cfg input user_query w = process_query_text env cfg input user_query w"





text \<open>The results handed to \<open>show_result\<close>, and whether a read of the flag made between two
  worlds saw it set.\<close>

definition delivered :: "world \<Rightarrow> (string \<times> pyval) list" where
  "delivered w = concat (map (\<lambda>t. case t of ShowResult title r \<Rightarrow> [(title, r)] | _ \<Rightarrow> []) (idle_queue w))"

definition observed_cancel :: "env \<Rightarrow> world \<Rightarrow> world \<Rightarrow> bool" where
  "observed_cancel env w w' =
     (case cancel_at env of
        None \<Rightarrow> False
      | Some t \<Rightarrow> flag_reads w < flag_reads w' \<and> t < flag_reads w')"

definition fresh :: world where
  "fresh = \<lparr>flag_reads = 0, net_log = [], idle_queue = []\<rparr>"

section \<open>Clipboard triggers\<close>

text \<open>What the three queries of \<open>Gtk.Clipboard\<close> answer.\<close>

record clipboard =
  wait_for_text :: "string option"
  wait_is_image_available :: bool
  wait_is_uris_available :: bool

definition get_clipboard_text :: "clipboard \<Rightarrow> string option \<times> string" where
  "get_clipboard_text cb =
     (case wait_for_text cb of
        None \<Rightarrow>
          if wait_is_image_available cb then (None, ''image'')
          else if wait_is_uris_available cb then (None, ''file'')
          else (None, ''empty'')
      | Some text \<Rightarrow> (Some text, ''text''))"

text \<open>
  The state of the GTK side: notifications sent, dialogs opened (with the text shown, the
  operation name and the callback run on submit) and pipeline runs started (the title of the
  \<open>ProcessingDialog\<close> with the input of the worker thread). Requests are posted by the
  workers of runs only.
\<close>

datatype dialog =
    ClipboardConfirmDialog "string option" string string
  | TextQueryDialog "string option" string

record app =
  notifications :: "string list"
  dialogs :: "dialog list"
  runs :: "(string \<times> string) list"

definition show_notification :: "string \<Rightarrow> app \<Rightarrow> app" where
  "show_notification message a = a\<lparr>notifications := notifications a @ [message]\<rparr>"

text \<open>The branch the three triggers share when the clipboard holds no text.\<close>

definition wrong_content :: "string \<Rightarrow> app \<Rightarrow> app" where
  "wrong_content content_type a =
     (if content_type = ''image'' then show_notification ''Clipboard contains an image, not text'' a
      else if content_type = ''file'' then show_notification ''Clipboard contains a file, not text'' a
      else show_notification ''Clipboard does not contain text'' a)"

definition translate_text :: "clipboard \<Rightarrow> app \<Rightarrow> app" where
  "translate_text cb a =
     (case get_clipboard_text cb of
        (text, content_type) \<Rightarrow>
          if content_type \<noteq> ''text'' then wrong_content content_type a
          else a\<lparr>dialogs := dialogs a @ [ClipboardConfirmDialog text ''Translation'' ''_process_translate'']\<rparr>)"

definition explain_text :: "clipboard \<Rightarrow> app \<Rightarrow> app" where
  "explain_text cb a =
     (case get_clipboard_text cb of
        (text, content_type) \<Rightarrow>
          if content_type \<noteq> ''text'' then wrong_content content_type a
          else a\<lparr>dialogs := dialogs a @ [ClipboardConfirmDialog text ''Explanation'' ''_process_explain'']\<rparr>)"

definition query_text :: "clipboard \<Rightarrow> app \<Rightarrow> app" where
  "query_text cb a =
     (case get_clipboard_text cb of
        (text, content_type) \<Rightarrow>
          if content_type \<noteq> ''text'' then wrong_content content_type a
          else a\<lparr>dialogs := dialogs a @ [TextQueryDialog text ''_process_query_text'']\<rparr>)"

text \<open>\<open>_process_translate\<close> up to the start of its thread: the run exists from here on.\<close>

definition start_process_translate :: "string \<Rightarrow> app \<Rightarrow> app" where
  "start_process_translate text a = a\<lparr>runs := runs a @ [(''Translating'', text)]\<rparr>"

datatype clipboard_operation =
    Translate_clipboard
  | Explain_clipboard
  | Query_clipboard

fun trigger :: "clipboard_operation \<Rightarrow> clipboard \<Rightarrow> app \<Rightarrow> app" where
  "trigger Translate_clipboard = translate_text"
| "trigger Explain_clipboard = explain_text"
| "trigger Query_clipboard = query_text"

section \<open>Global hotkeys\<close>

text \<open>The constants of \<open>Xlib.X\<close> and \<open>Xlib.XK\<close> the manager uses.\<close>

definition ShiftMask :: nat where "ShiftMask = 1"
definition ControlMask :: nat where "ControlMask = 4"
definition Mod1Mask :: nat where "Mod1Mask = 8"
definition Mod4Mask :: nat where "Mod4Mask = 64"
definition KeyPress :: nat where "KeyPress = 2"
definition KeyRelease :: nat where "KeyRelease = 3"
definition XK_1 :: nat where "XK_1 = 49"

text \<open>The table \<open>HOTKEYS\<close>: modifiers, keysym, callback name.\<close>

definition HOTKEYS :: "(nat \<times> nat \<times> string) list" where
  "HOTKEYS =
     [(ControlMask OR ShiftMask, XK_1, ''translate_text''),
      (ControlMask OR ShiftMask, XK_1 + 1, ''explain_text''),
      (ControlMask OR ShiftMask, XK_1 + 2, ''ocr_translate''),
      (ControlMask OR ShiftMask, XK_1 + 3, ''explain_image''),
      (ControlMask OR ShiftMask, XK_1 + 4, ''ocr_explain''),
      (ControlMask OR ShiftMask, XK_1 + 5, ''query_image''),
      (ControlMask OR ShiftMask, XK_1 + 6, ''query_text'')]"

text \<open>The manager: the grabs requested from the X server, in order, and \<open>hotkey_map\<close>.\<close>

record hotkey_manager =
  grabs :: "(nat \<times> nat) list"
  hotkey_map :: "(nat \<times> nat) \<rightharpoonup> string"

text \<open>The loop of \<open>setup_hotkeys\<close> over a table; \<open>keysym_to_keycode\<close> belongs to the display.\<close>

fun register_all :: "(nat \<Rightarrow> nat) \<Rightarrow> (nat \<times> nat \<times> string) list \<Rightarrow> hotkey_manager \<Rightarrow> hotkey_manager" where
  "register_all keysym_to_keycode [] hm = hm"
| "register_all keysym_to_keycode ((modifiers, keysym, callback_name) # rest) hm =
     register_all keysym_to_keycode rest
       (hm\<lparr>grabs := grabs hm @ [(keysym_to_keycode keysym, modifiers)],
           hotkey_map := (hotkey_map hm)((keysym_to_keycode keysym, modifiers) \<mapsto> callback_name)\<rparr>)"

definition setup_hotkeys :: "(nat \<Rightarrow> nat) \<Rightarrow> hotkey_manager \<Rightarrow> hotkey_manager" where
  "setup_hotkeys keysym_to_keycode hm = register_all keysym_to_keycode HOTKEYS hm"

definition new_manager :: hotkey_manager where
  "new_manager = \<lparr>grabs = [], hotkey_map = Map.empty\<rparr>"

record xevent =
  ev_type :: nat
  detail :: nat
  state :: nat

text \<open>The body of the inner \<open>while\<close> of \<open>_event_loop\<close> for one event; \<open>has_callback\<close> says
  which names \<open>getattr\<close> finds on the callback object.\<close>

definition handle_event :: "((nat \<times> nat) \<rightharpoonup> string) \<Rightarrow> (string \<Rightarrow> bool) \<Rightarrow> xevent \<Rightarrow> task list \<Rightarrow> task list" where
  "handle_event hmap has_callback event queue =
     (if ev_type event = KeyPress then
        (case hmap (detail event, state event AND (ControlMask OR ShiftMask OR Mod1Mask OR Mod4Mask)) of
           None \<Rightarrow> queue
         | Some callback_name \<Rightarrow>
             if callback_name \<noteq> [] \<and> has_callback callback_name
             then queue @ [Callback callback_name] else queue)
      else queue)"

fun event_loop :: "((nat \<times> nat) \<rightharpoonup> string) \<Rightarrow> (string \<Rightarrow> bool) \<Rightarrow> xevent list \<Rightarrow> task list \<Rightarrow> task list" where
  "event_loop hmap has_callback [] queue = queue"
| "event_loop hmap has_callback (event # pending) queue =
     event_loop hmap has_callback pending (handle_event hmap has_callback event queue)"

text \<open>The action a detected event stands for, if it matches a binding.\<close>

definition action_of :: "((nat \<times> nat) \<rightharpoonup> string) \<Rightarrow> (string \<Rightarrow> bool) \<Rightarrow> xevent \<Rightarrow> task list" where
  "action_of hmap has_callback event = handle_event hmap has_callback event []"

section \<open>The wire contract in the specification's words\<close>






text \<open>The result text of a buffered body at \<open>choices[0].message.content\<close>, where the body
  has that path.\<close>

fun spec_message_content :: "pyval \<Rightarrow> pyval option" where
  "spec_message_content (PDict kvs) =
     (case map_of kvs ''choices'' of
        Some (PList (PDict choice # _)) \<Rightarrow>
          (case map_of choice ''message'' of
             Some (PDict message) \<Rightarrow> map_of message ''content''
           | _ \<Rightarrow> None)
      | _ \<Rightarrow> None)"
| "spec_message_content v = None"

text \<open>The three failures of a buffered exchange: the transport raises (a timeout among
  others), \<open>raise_for_status\<close> rejects the status, or the body is not JSON or lacks the path
  to the result text.\<close>

definition exchange_fails :: "env \<Rightarrow> http_outcome \<Rightarrow> bool" where
  "exchange_fails env out =
     (case out of
        Raises e \<Rightarrow> True
      | Responds r \<Rightarrow>
          raise_for_status env (status_code r) \<noteq> None
          \<or> (case json_loads env (body r) of
                None \<Rightarrow> True
              | Some result \<Rightarrow> spec_message_content result = None))"

section \<open>A concrete environment\<close>

text \<open>
  Library behaviour fixed for evaluation: \<open>raise_for_status\<close> raises on the client and
  server error codes, \<open>json.loads\<close> is tabulated on the few texts used below.
\<close>

definition delta_chunk :: "string \<Rightarrow> pyval" where
  "delta_chunk s = PDict [(''choices'', PList [PDict [(''delta'', PDict [(''content'', PStr s)])]])]"

definition message_body :: "string \<Rightarrow> pyval" where
  "message_body s = PDict [(''choices'', PList [PDict [(''message'', PDict [(''content'', PStr s)])]])]"

definition example_loads :: "string \<Rightarrow> pyval option" where
  \<open>example_loads s =
     (if s = ''{"choices":[{"delta":{"content":"ab"}}]}'' then Some (delta_chunk ''ab'')
      else if s = ''{"choices":[{"delta":{"content":"cd"}}]}'' then Some (delta_chunk ''cd'')
      else if s = ''{"choices":[{"message":{"content":"hello"}}]}'' then Some (message_body ''hello'')
      else if s = ''5'' then Some (PInt 5)
      else None)\<close>

definition example_status :: "nat \<Rightarrow> exn option" where
  "example_status code = (if 400 \<le> code \<and> code < 600 then Some (HTTPError code) else None)"

definition example_str_exn :: "exn \<Rightarrow> string" where
  "example_str_exn e =
     (case e of
        Timeout \<Rightarrow> ''timed out''
      | HTTPError code \<Rightarrow> show_nat code @ '' Error''
      | OtherException m \<Rightarrow> m
      | _ \<Rightarrow> ''error'')"

definition example_env :: "nat option \<Rightarrow> (nat \<Rightarrow> request \<Rightarrow> http_outcome) \<Rightarrow> env" where
  "example_env c r =
     \<lparr>cancel_at = c, respond = r, raise_for_status = example_status,
      json_loads = example_loads, str_exn = example_str_exn, py_str = (\<lambda>v. ''?'')\<rparr>"

definition example_config :: config where
  "example_config =
     \<lparr>api_url = ''https://nano-gpt.com/api/v1/chat/completions'', api_key = ''Enter Key'',
      default_language = ''English'', text_model = ''deepseek-ai/deepseek-v3.2-exp'',
      premium_text_model = ''gpt-5-chat-latest'', vision_model = ''zai-org/GLM-4.5V-FP8'',
      ocr_model = ''zai-org/GLM-4.5V-FP8'', use_premium = False\<rparr>"

definition stream_of :: "string list \<Rightarrow> http_outcome" where
  "stream_of ls = Responds \<lparr>status_code = 200, body = [], lines = map Line ls\<rparr>"

definition body_of :: "nat \<Rightarrow> string \<Rightarrow> http_outcome" where
  "body_of code b = Responds \<lparr>status_code = code, body = b, lines = []\<rparr>"

definition abcd_lines :: "string list" where
  \<open>abcd_lines =
     [''data: {"choices":[{"delta":{"content":"ab"}}]}'',
      ''data: {"choices":[{"delta":{"content":"cd"}}]}'',
      ''data: [DONE]'']\<close>

text \<open>A stream that ends at once; flags set after the stream, and before the worker starts.\<close>

definition done_only :: "string list" where
  "done_only = [''data: [DONE]'']"

definition quiet_env :: env where
  "quiet_env = example_env None (\<lambda>k rq. stream_of done_only)"

definition late_env :: env where
  "late_env = example_env (Some 3) (\<lambda>k rq. stream_of abcd_lines)"

definition early_env :: env where
  "early_env = example_env (Some 0) (\<lambda>k rq. stream_of abcd_lines)"

text \<open>Buffered exchanges that time out, answer 404 and answer a body without the path.\<close>

definition failing_env :: env where
  "failing_env =
     example_env None
       (\<lambda>k rq. if rq_timeout rq = 120
                then (if k = 0 then Raises Timeout else if k = 1 then body_of 404 [] else body_of 200 ''5'')
                else stream_of abcd_lines)"

text \<open>A well-formed buffered body, answered with status 300 and with status 200.\<close>

definition hello_body :: string where
  \<open>hello_body = ''{"choices":[{"message":{"content":"hello"}}]}''\<close>

definition redirect_env :: env where
  "redirect_env = example_env None (\<lambda>k rq. body_of 300 hello_body)"

definition hello_env :: env where
  "hello_env = example_env None (\<lambda>k rq. body_of 200 hello_body)"



text \<open>A clipboard that holds an image, and the assistant before any trigger.\<close>

definition image_clipboard :: clipboard where
  "image_clipboard = \<lparr>wait_for_text = None, wait_is_image_available = True, wait_is_uris_available = False\<rparr>"

definition idle_app :: app where
  "idle_app = \<lparr>notifications = [], dialogs = [], runs = []\<rparr>"

text \<open>The seven action methods of \<open>LLMAssistant\<close>, a display on which the digit keys have
  the keycodes 10 to 16, a table with one pair twice, and an event of Ctrl+Shift+1.\<close>

definition assistant_has :: "string \<Rightarrow> bool" where
  "assistant_has name =
     (name \<in> set [''translate_text'', ''explain_text'', ''ocr_translate'', ''explain_image'',
                   ''ocr_explain'', ''query_image'', ''query_text''])"

definition example_keycode :: "nat \<Rightarrow> nat" where
  "example_keycode keysym = keysym - 39"


definition chord_event :: "nat \<Rightarrow> xevent" where
  "chord_event type = \<lparr>ev_type = type, detail = 10, state = 5\<rparr>"

section \<open>Effects of the primitive steps\<close>

lemma finish_not_empty: "finish s \<noteq> PStr []" "finish s \<noteq> PNone" "truthy (finish s)"
  by (simp_all add: finish_def)

lemma finish_empty: "finish [] = PStr ''No response received''"
  by (simp add: finish_def)

lemma idle_add_fields:
  "flag_reads (idle_add t w) = flag_reads w"
  "net_log (idle_add t w) = net_log w"
  "idle_queue (idle_add t w) = idle_queue w @ [t]"
  by (simp_all add: idle_add_def)

lemma delivered_idle_add:
  "delivered (idle_add Destroy w) = delivered w"
  "delivered (idle_add (UpdateStatus m) w) = delivered w"
  "delivered (idle_add (ShowResult title r) w) = delivered w @ [(title, r)]"
  by (simp_all add: delivered_def idle_add_def)

lemma read_cancelled_fields:
  "fst (read_cancelled env w) = cancelled_now env w"
  "flag_reads (snd (read_cancelled env w)) = Suc (flag_reads w)"
  "net_log (snd (read_cancelled env w)) = net_log w"
  "idle_queue (snd (read_cancelled env w)) = idle_queue w"
  "delivered (snd (read_cancelled env w)) = delivered w"
  by (simp_all add: read_cancelled_def delivered_def)

section \<open>The result of the streaming loop\<close>

lemma stream_loop_reads:
  "stream_loop env items acc w = (r, w') \<Longrightarrow>
     flag_reads w \<le> flag_reads w' \<and> (r = Inr PNone \<longleftrightarrow> observed_cancel env w w')
     \<and> r \<noteq> Inr (PStr [])"
proof (induction items arbitrary: acc w r w')
  case Nil
  then show ?case by (auto simp: observed_cancel_def finish_not_empty split: option.splits)
next
  case (Cons item rest)
  show ?case
  proof (cases item)
    case (Line l)
    show ?thesis
      using Cons.prems Cons.IH unfolding Line
      apply (simp add: read_cancelled_def split: if_splits option.splits sum.splits)
      apply (fastforce simp: observed_cancel_def cancelled_now_def finish_not_empty idle_add_fields split: option.splits)+
      done
  next
    case BadUtf8
    then show ?thesis using Cons.prems
      by (auto simp: observed_cancel_def read_cancelled_def cancelled_now_def split: option.splits if_splits)
  next
    case (Broken e)
    then show ?thesis using Cons.prems
      by (auto simp: observed_cancel_def split: option.splits)
  qed
qed

lemma stream_loop_world:
  "stream_loop env items acc w = (r, w') \<Longrightarrow>
     net_log w' = net_log w \<and> delivered w' = delivered w
     \<and> length (idle_queue w) \<le> length (idle_queue w')"
proof (induction items arbitrary: acc w r w')
  case Nil
  then show ?case by auto
next
  case (Cons item rest)
  show ?case
  proof (cases item)
    case (Line l)
    show ?thesis
      using Cons.prems Cons.IH unfolding Line
      apply (simp add: read_cancelled_def split: if_splits option.splits sum.splits)
      apply (fastforce simp: delivered_def idle_add_def)+
      done
  next
    case BadUtf8
    then show ?thesis using Cons.prems
      by (auto simp: read_cancelled_def delivered_def split: if_splits)
  next
    case (Broken e)
    then show ?thesis using Cons.prems by auto
  qed
qed

lemma stream_loop_silent:
  "stream_loop env items acc w = (Inr v, w') \<Longrightarrow> v \<noteq> PNone \<Longrightarrow>
     idle_queue w' = idle_queue w \<Longrightarrow> v = finish acc"
proof (induction items arbitrary: acc w)
  case Nil
  then show ?case by auto
next
  case (Cons item rest)
  show ?case
  proof (cases item)
    case (Line l)
    have grow: "\<And>acc' t. stream_loop env rest acc' (idle_add t (w\<lparr>flag_reads := Suc (flag_reads w)\<rparr>)) = (Inr v, w') \<Longrightarrow> False"
    proof -
      fix acc' t
      assume "stream_loop env rest acc' (idle_add t (w\<lparr>flag_reads := Suc (flag_reads w)\<rparr>)) = (Inr v, w')"
      from stream_loop_world [OF this] have "length (idle_queue w) < length (idle_queue w')"
        by (simp add: idle_add_def)
      with Cons.prems(3) show False by simp
    qed
    show ?thesis
      using Cons.prems Cons.IH grow unfolding Line
      apply (simp add: read_cancelled_def split: if_splits option.splits sum.splits)
      apply fastforce+
      done
  next
    case BadUtf8
    then show ?thesis using Cons.prems
      by (auto simp: read_cancelled_def split: if_splits)
  next
    case (Broken e)
    then show ?thesis using Cons.prems by auto
  qed
qed


lemma streaming_try_effects:
  assumes "streaming_try env rq w = (res, w')"
  shows "net_log w' = net_log w @ [rq]" and "delivered w' = delivered w"
    and "flag_reads w \<le> flag_reads w'" and "res = Inr PNone \<longleftrightarrow> observed_cancel env w w'"
    and "res \<noteq> Inr (PStr [])"
proof -
  let ?w1 = "w\<lparr>net_log := net_log w @ [rq]\<rparr>"
  have obs: "\<And>w''. observed_cancel env ?w1 w'' = observed_cancel env w w''"
    by (simp add: observed_cancel_def split: option.splits)
  have dl: "delivered ?w1 = delivered w"
    by (simp add: delivered_def)
  consider (raised) e where "res = Inl e" "w' = ?w1"
    | (looped) r :: response where "stream_loop env (lines r) [] ?w1 = (res, w')"
    using assms
    by (auto simp: streaming_try_def requests_post_def split: http_outcome.splits option.splits)
  then have "net_log w' = net_log w @ [rq] \<and> delivered w' = delivered w
      \<and> flag_reads w \<le> flag_reads w' \<and> (res = Inr PNone \<longleftrightarrow> observed_cancel env w w')
      \<and> res \<noteq> Inr (PStr [])"
  proof cases
    case raised
    then show ?thesis by (auto simp: dl observed_cancel_def split: option.splits)
  next
    case looped
    from stream_loop_reads [OF looped] stream_loop_world [OF looped] obs dl
    show ?thesis by simp
  qed
  then show "net_log w' = net_log w @ [rq]" and "delivered w' = delivered w"
    and "flag_reads w \<le> flag_reads w'" and "res = Inr PNone \<longleftrightarrow> observed_cancel env w w'"
    and "res \<noteq> Inr (PStr [])"
    by simp_all
qed

lemma streaming_try_silent:
  assumes "streaming_try env rq w = (Inr u, w')" and "u \<noteq> PNone" and "idle_queue w' = idle_queue w"
  shows "u = PStr ''No response received''"
proof -
  obtain r :: response where "stream_loop env (lines r) [] (w\<lparr>net_log := net_log w @ [rq]\<rparr>) = (Inr u, w')"
    using assms(1)
    by (auto simp: streaming_try_def requests_post_def split: http_outcome.splits option.splits)
  from stream_loop_silent [OF this assms(2)] assms(3) show ?thesis
    by (simp add: finish_empty)
qed

lemma handler_cases:
  "streaming_handler env (Inr v) = v"
  "streaming_handler env (Inl e) \<noteq> PNone"
  "streaming_handler env (Inl e) \<noteq> PStr []"
  "truthy (streaming_handler env (Inl e))"
  by (cases e; simp add: streaming_handler_def)+

text \<open>
  Claim C10. A streaming invocation never returns the empty string; it returns \<open>None\<close> exactly
  when one of its reads of the cancellation flag, made between two lines of the stream, saw
  the flag set; and when its \<open>try\<close> block returns normally a value other than \<open>None\<close> without
  having posted a progress update, which the loop does at every accumulation of delta
  content and nowhere else, that value is the sentinel \<open>No response received\<close>.
\<close>

theorem streaming_result_never_empty:
  assumes "call_llm_streaming env cfg model prompt w = (v, w')"
  shows "v \<noteq> PStr []
       \<and> (v = PNone \<longleftrightarrow> observed_cancel env w w')
       \<and> (\<forall>u. fst (streaming_try env (streaming_request cfg model prompt) w) = Inr u
                \<and> u \<noteq> PNone \<and> idle_queue w' = idle_queue w
              \<longrightarrow> v = PStr ''No response received'')"
proof -
  obtain res where tr: "streaming_try env (streaming_request cfg model prompt) w = (res, w')"
    and v: "v = streaming_handler env res"
    using assms by (auto simp: call_llm_streaming_def split: prod.splits)
  note eff = streaming_try_effects [OF tr]
  have a: "v \<noteq> PStr []"
    using v eff(5) by (cases res) (simp_all add: handler_cases)
  have b: "v = PNone \<longleftrightarrow> observed_cancel env w w'"
    using v eff(4) by (cases res) (simp_all add: handler_cases)
  have c: "\<forall>u. fst (streaming_try env (streaming_request cfg model prompt) w) = Inr u
                \<and> u \<noteq> PNone \<and> idle_queue w' = idle_queue w
              \<longrightarrow> v = PStr ''No response received''"
    using tr v streaming_try_silent by (auto simp: handler_cases)
  from a b c show ?thesis by blast
qed

theorem streaming_result_never_empty_witness:
  "call_llm_streaming quiet_env example_config ''m'' ''hi'' fresh
     = (PStr ''No response received'',
        \<lparr>flag_reads = 1, net_log = [streaming_request example_config ''m'' ''hi''], idle_queue = []\<rparr>)
   \<and> fst (streaming_try quiet_env (streaming_request example_config ''m'' ''hi'') fresh)
       = Inr (PStr ''No response received'')
   \<and> \<not> observed_cancel quiet_env fresh
        \<lparr>flag_reads = 1, net_log = [streaming_request example_config ''m'' ''hi''], idle_queue = []\<rparr>"
proof -
  let ?w = "\<lparr>flag_reads = 1, net_log = [streaming_request example_config ''m'' ''hi''], idle_queue = []\<rparr>"
  have h: "call_llm_streaming quiet_env example_config ''m'' ''hi'' fresh
             = (PStr ''No response received'', ?w)"
    by code_simp
  have t: "fst (streaming_try quiet_env (streaming_request example_config ''m'' ''hi'') fresh)
             = Inr (PStr ''No response received'')"
    by code_simp
  from streaming_result_never_empty [OF h] have "\<not> observed_cancel quiet_env fresh ?w"
    by simp
  with h t show ?thesis by simp
qed

section \<open>Streamed frames\<close>







section \<open>The two invocations as steps of a run\<close>

lemma response_content_spec:
  "(\<exists>e. response_content result = Inl e) \<longleftrightarrow> spec_message_content result = None"
  by (cases result)
     (auto simp: response_content_def bnd_def
           split: option.splits pyval.splits list.splits)

lemma call_llm_try_effects:
  assumes "call_llm_try env rq w = (res, w')"
  shows "w' = w\<lparr>net_log := net_log w @ [rq]\<rparr>"
  using assms
  by (auto simp: call_llm_try_def requests_post_def split: http_outcome.splits option.splits)

lemma call_llm_effects:
  assumes "call_llm env cfg model prompt img w = (v, w')"
  shows "w' = w\<lparr>net_log := net_log w @ [buffered_request cfg model prompt img]\<rparr>"
proof -
  obtain res where "call_llm_try env (buffered_request cfg model prompt img) w = (res, w')"
    using assms by (auto simp: call_llm_def split: prod.splits sum.splits)
  then show ?thesis by (rule call_llm_try_effects)
qed

lemma stream_loop_value:
  "stream_loop env items acc w = (Inr v, w') \<Longrightarrow> v = PNone \<or> truthy v"
proof (induction items arbitrary: acc w)
  case Nil
  then show ?case by (auto simp: finish_not_empty)
next
  case (Cons item rest)
  show ?case
  proof (cases item)
    case (Line l)
    show ?thesis
      using Cons.prems Cons.IH unfolding Line
      apply (simp add: read_cancelled_def split: if_splits option.splits sum.splits)
      apply (fastforce simp: finish_not_empty)+
      done
  next
    case BadUtf8
    then show ?thesis using Cons.prems
      by (auto simp: read_cancelled_def split: if_splits)
  next
    case (Broken e)
    then show ?thesis using Cons.prems by auto
  qed
qed

lemma streaming_try_value:
  assumes "streaming_try env rq w = (Inr v, w')"
  shows "v = PNone \<or> truthy v"
proof -
  obtain r :: response where "stream_loop env (lines r) [] (w\<lparr>net_log := net_log w @ [rq]\<rparr>) = (Inr v, w')"
    using assms
    by (auto simp: streaming_try_def requests_post_def split: http_outcome.splits option.splits)
  then show ?thesis by (rule stream_loop_value)
qed

lemma call_llm_streaming_effects:
  assumes "call_llm_streaming env cfg model prompt w = (v, w')"
  shows "net_log w' = net_log w @ [streaming_request cfg model prompt]"
    and "delivered w' = delivered w"
    and "flag_reads w \<le> flag_reads w'"
    and "v = PNone \<longleftrightarrow> observed_cancel env w w'"
    and "v \<noteq> PNone \<Longrightarrow> truthy v"
proof -
  obtain res where tr: "streaming_try env (streaming_request cfg model prompt) w = (res, w')"
    and v: "v = streaming_handler env res"
    using assms by (auto simp: call_llm_streaming_def split: prod.splits)
  note eff = streaming_try_effects [OF tr]
  show "net_log w' = net_log w @ [streaming_request cfg model prompt]"
    and "delivered w' = delivered w" and "flag_reads w \<le> flag_reads w'"
    using eff by simp_all
  show "v = PNone \<longleftrightarrow> observed_cancel env w w'"
    using v eff(4) by (cases res) (simp_all add: handler_cases)
  show "truthy v" if "v \<noteq> PNone"
  proof (cases res)
    case (Inl e)
    then show ?thesis using v by (simp add: handler_cases)
  next
    case (Inr u)
    then have "u = v" using v by (simp add: handler_cases)
    with Inr that streaming_try_value [of env _ w v w'] tr show ?thesis
      by blast
  qed
qed

lemma call_llm_snd:
  "snd (call_llm env cfg model prompt img w) = w\<lparr>net_log := net_log w @ [buffered_request cfg model prompt img]\<rparr>"
  using call_llm_effects [of env cfg model prompt img w] by (cases "call_llm env cfg model prompt img w") simp

lemma streaming_snd:
  "net_log (snd (call_llm_streaming env cfg model prompt w)) = net_log w @ [streaming_request cfg model prompt]"
  "delivered (snd (call_llm_streaming env cfg model prompt w)) = delivered w"
  "flag_reads w \<le> flag_reads (snd (call_llm_streaming env cfg model prompt w))"
  using call_llm_streaming_effects(1,2,3) [of env cfg model prompt w]
  by (cases "call_llm_streaming env cfg model prompt w"; simp)+


section \<open>Delivery\<close>

lemma deliver_effects:
  "net_log (deliver env title r w) = net_log w"
  "flag_reads w < flag_reads (deliver env title r w)"
  by (simp_all add: deliver_def read_cancelled_def idle_add_def)

lemma deliver_cancelled:
  "cancelled_now env w \<Longrightarrow> delivered (deliver env title r w) = delivered w"
  by (simp add: deliver_def read_cancelled_def cancelled_now_def delivered_def idle_add_def
           split: option.splits)

lemma deliver_late:
  assumes "cancel_at env = Some t" and "t < flag_reads (deliver env title r w)"
  shows "delivered (deliver env title r w) = delivered w"
  using assms
  by (auto simp: deliver_def read_cancelled_def cancelled_now_def delivered_def idle_add_def
           split: if_splits)


lemma delivered_update [simp]:
  "delivered (w\<lparr>net_log := n\<rparr>) = delivered w"
  "delivered (w\<lparr>flag_reads := k\<rparr>) = delivered w"
  by (simp_all add: delivered_def)

lemma late_run:
  assumes "cancel_at env = Some t" and "t < flag_reads (run_process op env cfg input q w)"
  shows "delivered (run_process op env cfg input q w) = delivered w"
proof (cases op)
  case TranslateText
  then show ?thesis using assms(2) deliver_late [OF assms(1)]
    by (simp add: process_translate_def split_beta streaming_snd)
next
  case ExplainText
  then show ?thesis using assms(2) deliver_late [OF assms(1)]
    by (simp add: process_explain_def split_beta streaming_snd)
next
  case OcrTranslate
  then show ?thesis using assms(2) deliver_late [OF assms(1)]
    by (simp add: ocr_translate_process_def split_beta streaming_snd call_llm_snd
          read_cancelled_def delivered_idle_add split: if_splits)
next
  case ExplainImage
  then show ?thesis using assms(2) deliver_late [OF assms(1)]
    by (simp add: explain_image_process_def split_beta call_llm_snd
          read_cancelled_def delivered_idle_add split: if_splits)
next
  case OcrExplain
  then show ?thesis using assms(2) deliver_late [OF assms(1)]
    by (simp add: ocr_explain_process_def split_beta streaming_snd call_llm_snd
          read_cancelled_def delivered_idle_add split: if_splits)
next
  case QueryImage
  then show ?thesis using assms(2) deliver_late [OF assms(1)]
    by (simp add: process_query_image_def split_beta streaming_snd call_llm_snd
          read_cancelled_def delivered_idle_add split: if_splits)
next
  case QueryText
  then show ?thesis using assms(2) deliver_late [OF assms(1)]
    by (simp add: process_query_text_def split_beta streaming_snd)
qed

section \<open>Cancellation\<close>

text \<open>
  Claim C2. A result that becomes available while the cancellation flag is set is never handed
  to \<open>show_result\<close>: the closing block of every worker reads the flag before it delivers, and
  in every run of the seven operations, once the flag is set no later than the last read the
  run makes of it, the run queues no \<open>show_result\<close> at all.
\<close>

theorem cancelled_result_not_delivered:
  "(cancelled_now env w1 \<longrightarrow> delivered (deliver env title result w1) = delivered w1)
   \<and> (cancel_at env = Some t \<and> t < flag_reads (run_process op env cfg input q w)
        \<longrightarrow> delivered (run_process op env cfg input q w) = delivered w)"
  using deliver_cancelled late_run by blast

theorem cancelled_result_not_delivered_witness:
  "cancelled_now late_env (snd (call_llm_streaming late_env example_config ''m'' ''hi'' fresh))
   \<and> fst (call_llm_streaming late_env example_config ''m'' ''hi'' fresh) = PStr ''abcd''
   \<and> delivered (deliver late_env ''Translation'' (PStr ''abcd'')
        (snd (call_llm_streaming late_env example_config ''m'' ''hi'' fresh))) = []
   \<and> cancel_at late_env = Some 3
   \<and> 3 < flag_reads (run_process TranslateText late_env example_config ''hi'' [] fresh)
   \<and> delivered (run_process TranslateText late_env example_config ''hi'' [] fresh) = []"
proof -
  let ?w1 = "snd (call_llm_streaming late_env example_config ''m'' ''hi'' fresh)"
  have h1: "cancelled_now late_env ?w1" by code_simp
  have h2: "cancel_at late_env = Some 3" by code_simp
  have h3: "3 < flag_reads (run_process TranslateText late_env example_config ''hi'' [] fresh)"
    by code_simp
  have v: "fst (call_llm_streaming late_env example_config ''m'' ''hi'' fresh) = PStr ''abcd''"
    by code_simp
  have d1: "delivered ?w1 = []" by code_simp
  have d0: "delivered fresh = []" by code_simp
  from cancelled_result_not_delivered
         [of late_env ?w1 "''Translation''" "PStr ''abcd''" 3 TranslateText example_config "''hi''" "[]" fresh]
       h1 h2 h3 v d1 d0
  show ?thesis by simp
qed

text \<open>
  The workers that start from a screenshot read the flag before their first stage and post
  nothing when it is set.
\<close>

lemma image_run_cancelled_before_start:
  assumes "cancelled_now env w" and "op \<in> {OcrTranslate, ExplainImage, OcrExplain, QueryImage}"
  shows "net_log (run_process op env cfg input q w) = net_log w"
  using assms
  by (auto simp: ocr_translate_process_def explain_image_process_def ocr_explain_process_def
        process_query_image_def read_cancelled_def cancelled_now_def idle_add_def
        split: option.splits)

text \<open>The workers of one streaming stage post one request in every run, whatever the flag.\<close>

lemma single_stage_always_posts:
  assumes "op \<in> {TranslateText, ExplainText, QueryText}"
  shows "length (net_log (run_process op env cfg input q w)) = Suc (length (net_log w))"
  using assms
  by (auto simp: process_translate_def process_explain_def process_query_text_def split_beta
        deliver_effects streaming_snd)

text \<open>
  Claim C1 on the code. With the flag set before the worker starts, the three workers that
  consist of one streaming stage still post their request: \<open>call_llm_streaming\<close> reads the
  flag only inside its loop, after \<open>requests.post\<close>. The run then ends with the dialog
  destroyed and nothing delivered.
\<close>

theorem cancelled_single_stage_still_posts:
  "cancelled_now early_env fresh
   \<and> length (net_log (run_process TranslateText early_env example_config ''hi'' [] fresh)) = 1
   \<and> length (net_log (run_process ExplainText early_env example_config ''hi'' [] fresh)) = 1
   \<and> length (net_log (run_process QueryText early_env example_config ''hi'' ''why'' fresh)) = 1
   \<and> idle_queue (run_process TranslateText early_env example_config ''hi'' [] fresh) = [Destroy]
   \<and> net_log (run_process ExplainImage early_env example_config ''QUJD'' [] fresh) = []"
  by code_simp

section \<open>Failures of the buffered invocation\<close>

lemma call_llm_try_fails:
  assumes "exchange_fails env (respond env (length (net_log w)) rq)"
  shows "\<exists>e. fst (call_llm_try env rq w) = Inl e"
proof (cases "respond env (length (net_log w)) rq")
  case (Raises e)
  then show ?thesis by (simp add: call_llm_try_def requests_post_def)
next
  case (Responds r)
  show ?thesis
  proof (cases "raise_for_status env (status_code r)")
    case (Some e)
    then show ?thesis using Responds by (simp add: call_llm_try_def requests_post_def)
  next
    case None
    show ?thesis
    proof (cases "json_loads env (body r)")
      case nj: None
      then show ?thesis using Responds None by (simp add: call_llm_try_def requests_post_def)
    next
      case (Some result)
      then have "spec_message_content result = None"
        using assms Responds None by (simp add: exchange_fails_def)
      then obtain e where "response_content result = Inl e"
        using response_content_spec by blast
      then show ?thesis using Responds None Some by (simp add: call_llm_try_def requests_post_def)
    qed
  qed
qed

lemma call_llm_catches:
  "fst (call_llm_try env (buffered_request cfg model prompt img) w) = Inl e
     \<Longrightarrow> fst (call_llm env cfg model prompt img w) = PStr (''Error: '' @ str_exn env e)"
  by (cases "call_llm_try env (buffered_request cfg model prompt img) w")
     (simp add: call_llm_def)


lemma response_content_found:
  "spec_message_content result = Some v \<Longrightarrow> response_content result = Inr v"
  by (cases result)
     (auto simp: response_content_def bnd_def
           split: option.splits pyval.splits list.splits)

lemma call_llm_accepts:
  assumes "respond env (length (net_log w)) (buffered_request cfg model prompt img) = Responds r"
    and "raise_for_status env (status_code r) = None"
    and "json_loads env (body r) = Some result"
    and "spec_message_content result = Some v"
  shows "fst (call_llm env cfg model prompt img w) = v"
  using assms response_content_found [OF assms(4)]
  by (simp add: call_llm_def call_llm_try_def requests_post_def)

lemma call_llm_error_status:
  assumes "respond env (length (net_log w)) (buffered_request cfg model prompt img) = Responds r"
    and "raise_for_status env = example_status"
    and "400 \<le> status_code r" and "status_code r < 600"
  shows "fst (call_llm env cfg model prompt img w)
           = PStr (''Error: '' @ str_exn env (HTTPError (status_code r)))"
  using assms
  by (simp add: call_llm_def call_llm_try_def requests_post_def example_status_def)

text \<open>
  Claim C6, amended. Every exception raised inside the \<open>try\<close> block of \<open>call_llm\<close> is caught and
  comes back to the caller as the text \<open>Error: \<close> followed by its message, so that none leaves
  the invocation. A transport that raises (a timeout among others), a status that
  \<open>raise_for_status\<close> rejects, a body that is not JSON and a body without the path
  \<open>choices[0].message.content\<close> are such exceptions. With the \<open>raise_for_status\<close> of
  \<open>requests\<close> the rejected statuses are the codes 400 to 599. Any other status is accepted,
  a status outside 200 to 299 included: the value at the path of its body is returned.
\<close>

theorem buffered_failure_is_returned:
  "(\<forall>e. fst (call_llm_try env (buffered_request cfg model prompt img) w) = Inl e
         \<longrightarrow> fst (call_llm env cfg model prompt img w) = PStr (''Error: '' @ str_exn env e))
   \<and> (exchange_fails env (respond env (length (net_log w)) (buffered_request cfg model prompt img))
        \<longrightarrow> (\<exists>e. fst (call_llm_try env (buffered_request cfg model prompt img) w) = Inl e
                 \<and> fst (call_llm env cfg model prompt img w) = PStr (''Error: '' @ str_exn env e)))
   \<and> (respond env (length (net_log w)) (buffered_request cfg model prompt img) = Responds r
        \<and> raise_for_status env = example_status
        \<and> 400 \<le> status_code r \<and> status_code r < 600
        \<longrightarrow> fst (call_llm env cfg model prompt img w)
              = PStr (''Error: '' @ str_exn env (HTTPError (status_code r))))
   \<and> (respond env (length (net_log w)) (buffered_request cfg model prompt img) = Responds r
        \<and> raise_for_status env (status_code r) = None
        \<and> json_loads env (body r) = Some result
        \<and> spec_message_content result = Some v
        \<longrightarrow> fst (call_llm env cfg model prompt img w) = v)"
proof (intro conjI allI impI)
  fix e
  assume "fst (call_llm_try env (buffered_request cfg model prompt img) w) = Inl e"
  then show "fst (call_llm env cfg model prompt img w) = PStr (''Error: '' @ str_exn env e)"
    by (rule call_llm_catches)
next
  assume "exchange_fails env (respond env (length (net_log w)) (buffered_request cfg model prompt img))"
  then obtain e where "fst (call_llm_try env (buffered_request cfg model prompt img) w) = Inl e"
    using call_llm_try_fails by blast
  then show "\<exists>e. fst (call_llm_try env (buffered_request cfg model prompt img) w) = Inl e
                \<and> fst (call_llm env cfg model prompt img w) = PStr (''Error: '' @ str_exn env e)"
    using call_llm_catches by blast
next
  assume "respond env (length (net_log w)) (buffered_request cfg model prompt img) = Responds r
          \<and> raise_for_status env = example_status
          \<and> 400 \<le> status_code r \<and> status_code r < 600"
  then show "fst (call_llm env cfg model prompt img w)
               = PStr (''Error: '' @ str_exn env (HTTPError (status_code r)))"
    using call_llm_error_status by blast
next
  assume "respond env (length (net_log w)) (buffered_request cfg model prompt img) = Responds r
          \<and> raise_for_status env (status_code r) = None
          \<and> json_loads env (body r) = Some result
          \<and> spec_message_content result = Some v"
  then show "fst (call_llm env cfg model prompt img w) = v"
    using call_llm_accepts by blast
qed

theorem buffered_failure_is_returned_witness:
  "exchange_fails failing_env (respond failing_env 0 (buffered_request example_config ''m'' ''p'' None))
   \<and> fst (call_llm failing_env example_config ''m'' ''p'' None fresh) = PStr ''Error: timed out''
   \<and> (\<exists>e. fst (call_llm failing_env example_config ''m'' ''p'' None fresh)
            = PStr (''Error: '' @ str_exn failing_env e))
   \<and> respond failing_env 1 (buffered_request example_config ''m'' ''p'' None) = body_of 404 []
   \<and> fst (call_llm failing_env example_config ''m'' ''p'' None
            (fresh\<lparr>net_log := [buffered_request example_config ''m'' ''p'' None]\<rparr>))
       = PStr ''Error: 404 Error''
   \<and> fst (call_llm failing_env example_config ''m'' ''p'' None
            (fresh\<lparr>net_log := [buffered_request example_config ''m'' ''p'' None,
                                 buffered_request example_config ''m'' ''p'' None]\<rparr>))
       = PStr ''Error: error''
   \<and> respond hello_env 0 (buffered_request example_config ''m'' ''p'' None) = body_of 200 hello_body
   \<and> fst (call_llm hello_env example_config ''m'' ''p'' None fresh) = PStr ''hello''"
proof -
  let ?rq = "buffered_request example_config ''m'' ''p'' None"
  let ?w1 = "fresh\<lparr>net_log := [?rq]\<rparr>"
  let ?r404 = "\<lparr>status_code = 404, body = [], lines = []\<rparr>"
  let ?r200 = "\<lparr>status_code = 200, body = hello_body, lines = []\<rparr>"
  have h: "exchange_fails failing_env (respond failing_env (length (net_log fresh)) ?rq)"
    by code_simp
  have h0: "exchange_fails failing_env (respond failing_env 0 ?rq)"
    by code_simp
  have a: "fst (call_llm failing_env example_config ''m'' ''p'' None fresh) = PStr ''Error: timed out''"
    by code_simp
  have c: "fst (call_llm failing_env example_config ''m'' ''p'' None
            (fresh\<lparr>net_log := [?rq, ?rq]\<rparr>)) = PStr ''Error: error''"
    by code_simp
  from buffered_failure_is_returned [where env = failing_env and cfg = example_config
         and model = "''m''" and prompt = "''p''" and img = None and w = fresh] h
  have ex: "\<exists>e. fst (call_llm failing_env example_config ''m'' ''p'' None fresh)
            = PStr (''Error: '' @ str_exn failing_env e)"
    by blast
  have s1: "respond failing_env (length (net_log ?w1)) ?rq = Responds ?r404"
    by (simp add: failing_env_def example_env_def fresh_def buffered_request_def body_of_def)
  have s1': "respond failing_env 1 ?rq = body_of 404 []"
    by (simp add: failing_env_def example_env_def buffered_request_def)
  have s2: "raise_for_status failing_env = example_status"
    by (simp add: failing_env_def example_env_def)
  have s3: "str_exn failing_env (HTTPError 404) = ''404 Error''"
    by code_simp
  from buffered_failure_is_returned [where env = failing_env and cfg = example_config
         and model = "''m''" and prompt = "''p''" and img = None and w = ?w1 and r = ?r404]
       s1 s2 s3
  have b: "fst (call_llm failing_env example_config ''m'' ''p'' None ?w1) = PStr ''Error: 404 Error''"
    by simp
  have t1: "respond hello_env (length (net_log fresh)) ?rq = Responds ?r200"
    by (simp add: hello_env_def example_env_def body_of_def)
  have t1': "respond hello_env 0 ?rq = body_of 200 hello_body"
    by (simp add: hello_env_def example_env_def)
  have t2: "raise_for_status hello_env (status_code ?r200) = None"
    by (simp add: hello_env_def example_env_def example_status_def)
  have t3: "json_loads hello_env (body ?r200) = Some (message_body ''hello'')"
    by code_simp
  have t4: "spec_message_content (message_body ''hello'') = Some (PStr ''hello'')"
    by code_simp
  from buffered_failure_is_returned [where env = hello_env and cfg = example_config
         and model = "''m''" and prompt = "''p''" and img = None and w = fresh and r = ?r200
         and result = "message_body ''hello''" and v = "PStr ''hello''"]
       t1 t2 t3 t4
  have d: "fst (call_llm hello_env example_config ''m'' ''p'' None fresh) = PStr ''hello''"
    by blast
  from h0 a ex s1' b c t1' d show ?thesis by blast
qed

text \<open>
  Claim C6 as stated fails on a response with status 300 and a well-formed body:
  \<open>raise_for_status\<close> raises for the codes 400 to 599 only, so the status, which is not a 2xx
  status, passes and the content of the body is returned as a result.
\<close>

theorem unrejected_status_is_success:
  "respond redirect_env 0 (buffered_request example_config ''m'' ''p'' None)
     = Responds \<lparr>status_code = 300, body = hello_body, lines = []\<rparr>
   \<and> \<not> (200 \<le> (300::nat) \<and> (300::nat) \<le> 299)
   \<and> fst (call_llm redirect_env example_config ''m'' ''p'' None fresh) = PStr ''hello''
   \<and> \<not> starts_with ''Error: '' ''hello''"
  by code_simp

section \<open>Failures inside a run\<close>







lemma str_contains_Cons: "str_contains p s \<Longrightarrow> str_contains p (c # s)"
  by simp














section \<open>Wrong clipboard content\<close>

lemma get_clipboard_text_kind:
  "snd (get_clipboard_text cb) \<noteq> ''text'' \<longleftrightarrow> wait_for_text cb = None"
  "snd (get_clipboard_text cb) \<in> {''text'', ''image'', ''file'', ''empty''}"
  by (simp_all add: get_clipboard_text_def split: option.splits)

lemma text_clipboard_opens_dialog:
  "wait_for_text cb = Some text \<Longrightarrow>
     translate_text cb a
       = a\<lparr>dialogs := dialogs a @ [ClipboardConfirmDialog (Some text) ''Translation'' ''_process_translate'']\<rparr>"
  by (simp add: translate_text_def get_clipboard_text_def)

text \<open>
  Claim C9. When the clipboard does not hold text (an image, a file or nothing), each of the
  three clipboard triggers sends one notification that names the wrong content and returns:
  it opens no dialog and starts no pipeline run, so that no worker exists to post a request.
\<close>

theorem wrong_clipboard_content_aborts:
  assumes "snd (get_clipboard_text cb) \<noteq> ''text''"
  shows "notifications (trigger op cb a) =
           notifications a @
             [if snd (get_clipboard_text cb) = ''image'' then ''Clipboard contains an image, not text''
              else if snd (get_clipboard_text cb) = ''file'' then ''Clipboard contains a file, not text''
              else ''Clipboard does not contain text'']
       \<and> dialogs (trigger op cb a) = dialogs a
       \<and> runs (trigger op cb a) = runs a"
  using assms
  by (cases op)
     (simp_all add: translate_text_def explain_text_def query_text_def wrong_content_def
        show_notification_def split_beta)

theorem wrong_clipboard_content_aborts_witness:
  "snd (get_clipboard_text image_clipboard) \<noteq> ''text''
   \<and> trigger Translate_clipboard image_clipboard idle_app
       = \<lparr>notifications = [''Clipboard contains an image, not text''], dialogs = [], runs = []\<rparr>"
proof -
  have h: "snd (get_clipboard_text image_clipboard) \<noteq> ''text''"
    by (simp add: get_clipboard_text_def image_clipboard_def)
  have k: "snd (get_clipboard_text image_clipboard) = ''image''"
    by (simp add: get_clipboard_text_def image_clipboard_def)
  from wrong_clipboard_content_aborts [OF h, of Translate_clipboard idle_app] k
  have "notifications (trigger Translate_clipboard image_clipboard idle_app)
          = [''Clipboard contains an image, not text'']
      \<and> dialogs (trigger Translate_clipboard image_clipboard idle_app) = []
      \<and> runs (trigger Translate_clipboard image_clipboard idle_app) = []"
    by (simp add: idle_app_def)
  then have "trigger Translate_clipboard image_clipboard idle_app
       = \<lparr>notifications = [''Clipboard contains an image, not text''], dialogs = [], runs = []\<rparr>"
    by (cases "trigger Translate_clipboard image_clipboard idle_app") simp
  with h show ?thesis by simp
qed

section \<open>Registration and dispatch of hotkeys\<close>

lemma event_loop_append:
  "event_loop hmap hc events queue = queue @ concat (map (action_of hmap hc) events)"
proof (induction events arbitrary: queue)
  case Nil
  show ?case by simp
next
  case (Cons e events)
  have "handle_event hmap hc e queue = queue @ action_of hmap hc e"
    by (simp add: handle_event_def action_of_def split: option.splits)
  then show ?case using Cons.IH by simp
qed






text \<open>
  Claim C8, amended. Each \<open>KeyPress\<close> event of a registered chord queues exactly one
  invocation of its action and a \<open>KeyRelease\<close> event queues none, so a press and release that
  arrive as one \<open>KeyPress\<close> and one \<open>KeyRelease\<close> give exactly one invocation. The loop does
  not tell a repeat from a first press: \<open>n\<close> \<open>KeyPress\<close> events before the release give \<open>n\<close>
  invocations.
\<close>

theorem one_invocation_per_key_press:
  assumes "hmap (detail e, state e AND (ControlMask OR ShiftMask OR Mod1Mask OR Mod4Mask)) = Some name"
    and "name \<noteq> []" and "hc name"
  shows "event_loop hmap hc (replicate n (e\<lparr>ev_type := KeyPress\<rparr>) @ [e\<lparr>ev_type := KeyRelease\<rparr>]) queue
           = queue @ replicate n (Callback name)"
proof -
  have p: "action_of hmap hc (e\<lparr>ev_type := KeyPress\<rparr>) = [Callback name]"
    using assms by (simp add: action_of_def handle_event_def)
  have r: "action_of hmap hc (e\<lparr>ev_type := KeyRelease\<rparr>) = []"
    by (simp add: action_of_def handle_event_def KeyPress_def KeyRelease_def)
  have "concat (replicate n [Callback name]) = replicate n (Callback name)"
    by (induction n) simp_all
  then show ?thesis
    by (simp add: event_loop_append p r map_replicate_const)
qed

theorem one_invocation_per_key_press_witness:
  "hotkey_map (setup_hotkeys example_keycode new_manager)
      (detail (chord_event KeyPress),
       state (chord_event KeyPress) AND (ControlMask OR ShiftMask OR Mod1Mask OR Mod4Mask))
     = Some ''translate_text''
   \<and> assistant_has ''translate_text''
   \<and> event_loop (hotkey_map (setup_hotkeys example_keycode new_manager)) assistant_has
        [chord_event KeyPress, chord_event KeyRelease] []
       = [Callback ''translate_text'']"
proof -
  let ?hmap = "hotkey_map (setup_hotkeys example_keycode new_manager)"
  have h1: "?hmap (detail (chord_event KeyPress),
              state (chord_event KeyPress) AND (ControlMask OR ShiftMask OR Mod1Mask OR Mod4Mask))
            = Some ''translate_text''"
    by code_simp
  have h2: "''translate_text'' \<noteq> []" by simp
  have h3: "assistant_has ''translate_text''" by code_simp
  have e1: "(chord_event KeyPress)\<lparr>ev_type := KeyPress\<rparr> = chord_event KeyPress"
    and e2: "(chord_event KeyPress)\<lparr>ev_type := KeyRelease\<rparr> = chord_event KeyRelease"
    by (simp_all add: chord_event_def)
  from one_invocation_per_key_press
         [of ?hmap "chord_event KeyPress" "''translate_text''" assistant_has "Suc 0" "[]"]
       h1 h2 h3 e1 e2
  have "event_loop ?hmap assistant_has [chord_event KeyPress, chord_event KeyRelease] []
          = [Callback ''translate_text'']"
    by simp
  with h1 h3 show ?thesis by blast
qed

text \<open>
  Claim C8 as stated fails on a key held long enough for one repeat: two \<open>KeyPress\<close> events
  and one \<open>KeyRelease\<close> of Ctrl+Shift+1 queue the action twice.
\<close>

theorem held_key_invokes_again:
  "event_loop (hotkey_map (setup_hotkeys example_keycode new_manager)) assistant_has
     [chord_event KeyPress, chord_event KeyPress, chord_event KeyRelease] []
     = [Callback ''translate_text'', Callback ''translate_text'']"
  by code_simp

end
